theory Spec2Isabelle
  imports Complex_Main "HOL-Library.Word" "HOL-Library.Log_Nat"
begin

unbundle bit_operations_syntax

section \<open>TCS34725 colour sensor: photometric conversion and exposure control\<close>

text \<open>
  The development embeds \<^verbatim>\<open>esphome/components/tcs34725/tcs34725.cpp\<close>.

  Numbers. The C++ code computes in \<^verbatim>\<open>float\<close>. A finite \<^verbatim>\<open>float\<close> is modelled by the real
  number it denotes.

  In the exposure controller the register that is written depends on how each operation
  rounds, so the path from the clear count to the integration register is modelled with the
  rounding of IEEE single precision, \<open>f32\<close> below, after every operation: the ideal
  integration time, the clamp bounds, the conversion between milliseconds and register
  values. Scaling by 4 is exact in binary and is written without rounding. The two gain
  conditions compare a \<^verbatim>\<open>double\<close> quotient with 20 and 70; the only clear count at which the
  exact quotient meets a bound is 13107, where the \<^verbatim>\<open>double\<close> quotient is 20 as well, so they
  are written with the exact quotient.

  In the photometric converter arithmetic on finite values is exact: the results about it
  are about its control flow, and are stated on the value computed, whatever it is. What is
  modelled of IEEE arithmetic there is what the control flow depends on: the value NaN (the
  "undefined" output of the converter), the two infinities and NaN that a division by zero
  produces, and comparisons, which are false as soon as one side is NaN. Overflow to
  infinity and the sign of zero are not modelled.

  Integers. \<^verbatim>\<open>uint16_t\<close> channel counts are \<open>16 word\<close>, \<^verbatim>\<open>uint8_t\<close> registers are \<open>8 word\<close>.

  Effects. The component object is a record that every member function takes and returns.
  The I2C bus is the environment: the result of the burst read and of the two register
  writes are arguments of \<open>update\<close>. Logging and \<^verbatim>\<open>publish_state\<close> calls write to sinks that
  the code never reads back; they are left out.
\<close>

subsection \<open>Float values\<close>

datatype flt = Fin real | PInf | NInf | NaN

text \<open>\<^verbatim>\<open>a < b\<close> on floats.\<close>

fun flt_less :: "flt \<Rightarrow> flt \<Rightarrow> bool" where
  "flt_less (Fin x) (Fin y) = (x < y)"
| "flt_less (Fin x) PInf = True"
| "flt_less (Fin x) NInf = False"
| "flt_less (Fin x) NaN = False"
| "flt_less PInf b = False"
| "flt_less NInf (Fin y) = True"
| "flt_less NInf PInf = True"
| "flt_less NInf NInf = False"
| "flt_less NInf NaN = False"
| "flt_less NaN b = False"

text \<open>\<^verbatim>\<open>a / b\<close> on floats: a finite quotient when the divisor is a non-zero finite value,
  an infinity or NaN otherwise.\<close>

fun fdiv :: "flt \<Rightarrow> flt \<Rightarrow> flt" where
  "fdiv (Fin x) (Fin y) =
     (if y \<noteq> 0 then Fin (x / y)
      else if x = 0 then NaN
      else if 0 < x then PInf else NInf)"
| "fdiv (Fin x) PInf = Fin 0"
| "fdiv (Fin x) NInf = Fin 0"
| "fdiv (Fin x) NaN = NaN"
| "fdiv PInf (Fin y) = (if 0 \<le> y then PInf else NInf)"
| "fdiv NInf (Fin y) = (if 0 \<le> y then NInf else PInf)"
| "fdiv PInf b = NaN"
| "fdiv NInf b = NaN"
| "fdiv NaN b = NaN"

text \<open>\<^verbatim>\<open>std::max(a, b)\<close> is \<^verbatim>\<open>(a < b) ? b : a\<close>: a NaN in the first argument is returned.\<close>

definition fmax :: "flt \<Rightarrow> flt \<Rightarrow> flt" where
  "fmax a b = (if flt_less a b then b else a)"

text \<open>\<^verbatim>\<open>(uint8_t) x\<close> for a float \<open>x\<close> truncates towards zero. C++ leaves the conversion
  undefined when the truncated value is not in \<open>0..255\<close>; \<open>u8_cast_defined\<close> is that
  precondition, and \<open>regval_atime_defined\<close> below shows that the one cast of the code
  always meets it.\<close>

definition trunc_toward_zero :: "real \<Rightarrow> int" where
  "trunc_toward_zero x = (if 0 \<le> x then \<lfloor>x\<rfloor> else \<lceil>x\<rceil>)"

definition u8_cast_defined :: "real \<Rightarrow> bool" where
  "u8_cast_defined x = (0 \<le> trunc_toward_zero x \<and> trunc_toward_zero x \<le> 255)"

definition u8_of_float :: "real \<Rightarrow> 8 word" where
  "u8_of_float x = word_of_int (trunc_toward_zero x)"

subsection \<open>Rounding to single precision\<close>

text \<open>Rounding to the nearest integer, ties to the even one.\<close>

definition round_half_even :: "real \<Rightarrow> int" where
  "round_half_even y =
     (let f = \<lfloor>y\<rfloor>; d = y - real_of_int f
      in if d < 1 / 2 then f
         else if 1 / 2 < d then f + 1
         else if even f then f else f + 1)"

text \<open>The result of a \<^verbatim>\<open>float\<close> operation is the exact result rounded to the nearest
  \<^verbatim>\<open>float\<close>, ties to even. \<open>f32 x\<close> is that \<^verbatim>\<open>float\<close>: a multiple of the unit in the last
  place of \<open>x\<close>, which is \<open>2 ^ (e - 23)\<close> for \<open>2 ^ e \<le> \<bar>x\<bar> < 2 ^ (e + 1)\<close> and never less
  than \<open>2 ^ - 149\<close> (gradual underflow). Magnitudes are counted in units of \<open>2 ^ - 149\<close>,
  and \<open>bitlen\<close> gives the number of binary digits of the integer part. The exponent is
  not bounded above: overflow to infinity, at \<open>2 ^ 128\<close>, is not modelled.\<close>

definition f32 :: "real \<Rightarrow> real" where
  "f32 x =
     (let m = \<bar>x\<bar> * 2 ^ 149;
          k = nat (bitlen \<lfloor>m\<rfloor> - 24)
      in sgn x * (real_of_int (round_half_even (m / 2 ^ k)) * 2 ^ k / 2 ^ 149))"

subsection \<open>The component\<close>

text \<open>The fields of \<^verbatim>\<open>TCS34725Component\<close> that the code reads or writes. The class is
  declared in \<^verbatim>\<open>tcs34725.h\<close>, which is not among the sources: the types of the fields are
  those of the data model of the specification, 8-bit registers and \<^verbatim>\<open>float\<close> for the
  integration time, the gain and the glass attenuation, as the code uses them. The two sensor
  flags stand for \<^verbatim>\<open>illuminance_sensor_ != nullptr\<close> and
  \<^verbatim>\<open>color_temperature_sensor_ != nullptr\<close>; \<open>failed\<close> is set by \<^verbatim>\<open>mark_failed()\<close>,
  \<open>warning\<close> by \<^verbatim>\<open>status_set_warning()\<close> and cleared by \<^verbatim>\<open>status_clear_warning()\<close>.\<close>

record tcs =
  integration_reg :: "8 word"
  gain_reg :: "8 word"
  integration_time :: real
  gain :: real
  glass_attenuation :: real
  integration_time_auto :: bool
  illuminance :: flt
  color_temperature :: flt
  has_illuminance_sensor :: bool
  has_color_temperature_sensor :: bool
  failed :: bool
  warning :: bool

subsection \<open>Photometric converter\<close>

definition DF :: real where "DF = 310"
definition R_COEF :: real where "R_COEF = 0.58"
definition G_COEF :: real where "G_COEF = 1.444"
definition B_COEF :: real where "B_COEF = 0.0"
definition SCALING_FACTOR :: real where "SCALING_FACTOR = 0.342"
definition CT_COEF :: real where "CT_COEF = 3810"
definition CT_OFFSET :: real where "CT_OFFSET = 1391"
definition MAX_ILLUMINANCE :: real where "MAX_ILLUMINANCE = 100000.0"
definition MAX_COLOR_TEMPERATURE :: real where "MAX_COLOR_TEMPERATURE = 15000.0"
definition MIN_COLOR_TEMPERATURE :: real where "MIN_COLOR_TEMPERATURE = 1000.0"

text \<open>\<^verbatim>\<open>check_saturation\<close>: the channel name and the auto-gain flag select the log message
  only.\<close>

definition check_saturation :: "string \<Rightarrow> 16 word \<Rightarrow> real \<Rightarrow> bool \<Rightarrow> bool" where
  "check_saturation channel_name val sat auto_gain = (if real (unat val) \<ge> sat then True else False)"

text \<open>The saturation level \<^verbatim>\<open>sat\<close> of \<^verbatim>\<open>calculate_temperature_and_lux_\<close>: digital
  or analog saturation by the integration register, reduced by a quarter when the cached
  integration time is below 150 ms.\<close>

definition saturation_level :: "tcs \<Rightarrow> real" where
  "saturation_level s =
     (let sat = (if (256 - uint (integration_reg s)) > 63
                 then 65535
                 else 1024 * (256 - real_of_int (uint (integration_reg s))))
      in if integration_time s < 150 then sat - sat / 4 else sat)"

definition any_channel_saturated :: "16 word \<Rightarrow> 16 word \<Rightarrow> 16 word \<Rightarrow> 16 word \<Rightarrow> tcs \<Rightarrow> bool" where
  "any_channel_saturated r g b c s =
     (check_saturation ''clear'' c (saturation_level s) (integration_time_auto s) \<or>
      check_saturation ''red'' r (saturation_level s) (integration_time_auto s) \<or>
      check_saturation ''green'' g (saturation_level s) (integration_time_auto s) \<or>
      check_saturation ''blue'' b (saturation_level s) (integration_time_auto s))"

text \<open>The illuminance as computed, \<^verbatim>\<open>std::max(g1_scaled / cpl, 0.0f)\<close>, before the test
  against \<open>MAX_ILLUMINANCE\<close>.\<close>

definition lux_computed :: "16 word \<Rightarrow> 16 word \<Rightarrow> 16 word \<Rightarrow> tcs \<Rightarrow> flt" where
  "lux_computed r g b s =
     (let ga = glass_attenuation s;
          g1_adjusted = R_COEF * real (unat r) + G_COEF * real (unat g) + B_COEF * real (unat b);
          g1_scaled = SCALING_FACTOR * g1_adjusted;
          cpl = fdiv (Fin (integration_time s * gain s)) (Fin (ga * DF))
      in fmax (fdiv (Fin g1_scaled) cpl) (Fin 0))"

text \<open>The colour temperature as computed, for \<open>r \<noteq> 0\<close>, before the range test.\<close>

definition ct_computed :: "16 word \<Rightarrow> 16 word \<Rightarrow> real" where
  "ct_computed r b = (CT_COEF * real (unat b)) / real (unat r) + CT_OFFSET"

text \<open>\<^verbatim>\<open>TCS34725Component::calculate_temperature_and_lux_(r, g, b, c)\<close>.\<close>

definition calculate_temperature_and_lux ::
    "16 word \<Rightarrow> 16 word \<Rightarrow> 16 word \<Rightarrow> 16 word \<Rightarrow> tcs \<Rightarrow> tcs" where
  "calculate_temperature_and_lux r g b c s0 =
     (let s1 = s0\<lparr>illuminance := NaN, color_temperature := NaN\<rparr> in
      if c = 0 then s1
      else if any_channel_saturated r g b c s1 then s1
      else
        let s2 = s1\<lparr>illuminance := lux_computed r g b s1\<rparr> in
        if flt_less (Fin MAX_ILLUMINANCE) (illuminance s2) then s2\<lparr>illuminance := NaN\<rparr>
        else if r = 0 then s2
        else
          let s3 = s2\<lparr>color_temperature := Fin (ct_computed r b)\<rparr> in
          if flt_less (color_temperature s3) (Fin MIN_COLOR_TEMPERATURE)
          then s3\<lparr>color_temperature := NaN\<rparr>
          else if flt_less (Fin MAX_COLOR_TEMPERATURE) (color_temperature s3)
          then s3\<lparr>color_temperature := NaN\<rparr>
          else s3)"

subsection \<open>Settings\<close>

text \<open>Modelled from the spec: the enumerators of \<^verbatim>\<open>TCS34725Gain\<close> are declared in
  \<^verbatim>\<open>tcs34725.h\<close>, which is not among the sources. The data model of the specification
  gives the register values 0, 1, 2, 3 for the multipliers 1, 4, 16, 60.\<close>

definition TCS34725_GAIN_1X :: "8 word" where "TCS34725_GAIN_1X = 0"
definition TCS34725_GAIN_4X :: "8 word" where "TCS34725_GAIN_4X = 1"
definition TCS34725_GAIN_16X :: "8 word" where "TCS34725_GAIN_16X = 2"
definition TCS34725_GAIN_60X :: "8 word" where "TCS34725_GAIN_60X = 3"

text \<open>\<^verbatim>\<open>TCS34725Component::set_gain(gain)\<close>.\<close>

definition set_gain :: "8 word \<Rightarrow> tcs \<Rightarrow> tcs" where
  "set_gain g s =
     (let s1 = s\<lparr>gain_reg := g\<rparr> in
      if g = TCS34725_GAIN_1X then s1\<lparr>gain := 1\<rparr>
      else if g = TCS34725_GAIN_4X then s1\<lparr>gain := 4\<rparr>
      else if g = TCS34725_GAIN_16X then s1\<lparr>gain := 16\<rparr>
      else if g = TCS34725_GAIN_60X then s1\<lparr>gain := 60\<rparr>
      else s1\<lparr>gain := 1\<rparr>)"

text \<open>Register value to milliseconds, \<^verbatim>\<open>(256.f - regval) * 2.4f\<close> of
  \<^verbatim>\<open>set_integration_time\<close>, and milliseconds to register value,
  \<^verbatim>\<open>(uint8_t) (256.f - ms / 2.4f)\<close> of \<^verbatim>\<open>update\<close>. The literal \<^verbatim>\<open>2.4f\<close> is the
  \<^verbatim>\<open>float\<close> nearest to 2.4; the difference of 256 and an integer is exact; the product, the
  quotient and the difference of 256 and the quotient are rounded.\<close>

definition ms_from_integration_reg :: "nat \<Rightarrow> real" where
  "ms_from_integration_reg regval = f32 ((256 - real regval) * f32 2.4)"

definition integration_reg_from_ms :: "real \<Rightarrow> 8 word" where
  "integration_reg_from_ms ms = u8_of_float (f32 (256 - f32 (ms / f32 2.4)))"

text \<open>Modelled from the spec: the enumerators of \<^verbatim>\<open>TCS34725IntegrationTime\<close> are declared
  in the missing header too. An enumerator is modelled by its integer value. The comment in
  \<^verbatim>\<open>set_integration_time\<close> gives \<^verbatim>\<open>0x100\<close> for \<^verbatim>\<open>TCS34725_INTEGRATION_TIME_AUTO\<close>; the
  value of \<^verbatim>\<open>TCS34725_INTEGRATION_TIME_154MS\<close> is the first argument of the model.\<close>

definition TCS34725_INTEGRATION_TIME_AUTO :: nat where
  "TCS34725_INTEGRATION_TIME_AUTO = 0x100"

text \<open>\<^verbatim>\<open>TCS34725Component::set_integration_time(integration_time)\<close>.\<close>

definition set_integration_time :: "nat \<Rightarrow> nat \<Rightarrow> tcs \<Rightarrow> tcs" where
  "set_integration_time time_154ms integration_time_arg s =
     (if integration_time_arg = TCS34725_INTEGRATION_TIME_AUTO
      then s\<lparr>integration_time_auto := True,
              integration_reg := of_nat time_154ms,
              integration_time := ms_from_integration_reg time_154ms\<rparr>
      else s\<lparr>integration_reg := of_nat integration_time_arg,
              integration_time_auto := False,
              integration_time := ms_from_integration_reg integration_time_arg\<rparr>)"

text \<open>\<^verbatim>\<open>TCS34725Component::set_glass_attenuation_factor(ga)\<close>.\<close>

definition set_glass_attenuation_factor :: "real \<Rightarrow> tcs \<Rightarrow> tcs" where
  "set_glass_attenuation_factor ga s = s\<lparr>glass_attenuation := ga\<rparr>"

subsection \<open>Exposure controller\<close>

text \<open>The auto-exposure block of \<^verbatim>\<open>TCS34725Component::update\<close>, in the order of the code.
  First the ideal integration time for the clear count read,
  \<^verbatim>\<open>60 / ((float) std::max((uint16_t) 1, raw_c) / 655.35f) * this->integration_time_\<close>:
  a quotient, a second quotient and a product of \<^verbatim>\<open>float\<close> values, each rounded.\<close>

definition integration_time_ideal :: "16 word \<Rightarrow> tcs \<Rightarrow> real" where
  "integration_time_ideal raw_c s =
     f32 (f32 (60 / f32 (real (unat (max 1 raw_c)) / f32 655.35)) * integration_time s)"

text \<open>The conditions of the two gain steps. Both read the gain register of the component,
  not the new value.\<close>

definition gain_increase :: "16 word \<Rightarrow> tcs \<Rightarrow> bool" where
  "gain_increase raw_c s =
     (gain_reg s < 3 \<and> (real (unat raw_c) / 655.35 < 20 \<and> integration_time s > 600))"

definition gain_decrease :: "16 word \<Rightarrow> tcs \<Rightarrow> bool" where
  "gain_decrease raw_c s =
     (gain_reg s > 0 \<and> (70 < real (unat raw_c) / 655.35 \<and> integration_time s < 200))"

text \<open>The two \<^verbatim>\<open>if\<close> statements, one after the other: the pair of
  \<^verbatim>\<open>gain_reg_val_new\<close> and \<^verbatim>\<open>integration_time_ideal\<close> after them. Dividing and multiplying
  a \<^verbatim>\<open>float\<close> by 4 changes its exponent only, so neither is rounded.\<close>

definition gain_adjustment :: "16 word \<Rightarrow> tcs \<Rightarrow> 8 word \<times> real" where
  "gain_adjustment raw_c s =
     (let ideal0 = integration_time_ideal raw_c s;
          new0 = gain_reg s;
          (new1, ideal1) =
            (if gain_increase raw_c s then (gain_reg s + 1, ideal0 / 4) else (new0, ideal0));
          (new2, ideal2) =
            (if gain_decrease raw_c s then (gain_reg s - 1, ideal1 * 4) else (new1, ideal1))
      in (new2, ideal2))"

text \<open>"saturate integration times": the two \<^verbatim>\<open>if\<close> statements on
  \<^verbatim>\<open>integration_time_ideal\<close>. The upper bound is the \<^verbatim>\<open>float\<close> product \<^verbatim>\<open>2.4f * 256\<close>.\<close>

definition saturate_time :: "real \<Rightarrow> real" where
  "saturate_time ideal =
     (let next0 = ideal;
          next1 = (if ideal > f32 (f32 2.4 * 256) then f32 (f32 2.4 * 256) else next0);
          next2 = (if ideal < 154 then 154 else next1)
      in next2)"

definition gain_reg_val_new :: "16 word \<Rightarrow> tcs \<Rightarrow> 8 word" where
  "gain_reg_val_new raw_c s = fst (gain_adjustment raw_c s)"

definition integration_time_next :: "16 word \<Rightarrow> tcs \<Rightarrow> real" where
  "integration_time_next raw_c s = saturate_time (snd (gain_adjustment raw_c s))"

definition regval_atime :: "16 word \<Rightarrow> tcs \<Rightarrow> 8 word" where
  "regval_atime raw_c s = integration_reg_from_ms (integration_time_next raw_c s)"

text \<open>The whole block. \<open>atime_ok\<close> and \<open>control_ok\<close> say whether the write of the ATIME
  register and of the CONTROL register succeed.\<close>

definition auto_exposure :: "16 word \<Rightarrow> bool \<Rightarrow> bool \<Rightarrow> tcs \<Rightarrow> tcs" where
  "auto_exposure raw_c atime_ok control_ok s =
     (if integration_reg s \<noteq> regval_atime raw_c s \<or> gain_reg_val_new raw_c s \<noteq> gain_reg s
      then
        let s1 = s\<lparr>integration_reg := regval_atime raw_c s\<rparr>;
            s2 = s1\<lparr>gain_reg := gain_reg_val_new raw_c s\<rparr>;
            s3 = set_gain (gain_reg_val_new raw_c s) s2
        in if \<not> atime_ok \<or> \<not> control_ok
           then s3\<lparr>failed := True\<rparr>
           else s3\<lparr>integration_time := integration_time_next raw_c s\<rparr>
      else s)"

text \<open>The eight bytes of the burst read, and a 16-bit count from its low and high byte,
  \<^verbatim>\<open>data[0] | (data[1] << 8)\<close>.\<close>

datatype crgb_data = Data "8 word" "8 word" "8 word" "8 word" "8 word" "8 word" "8 word" "8 word"

definition le16 :: "8 word \<Rightarrow> 8 word \<Rightarrow> 16 word" where
  "le16 lo hi = (ucast lo) OR (push_bit 8 (ucast hi))"

text \<open>\<^verbatim>\<open>TCS34725Component::update()\<close>. \<open>rd\<close> is the result of the burst read, \<open>None\<close> when
  it fails.\<close>

definition update :: "crgb_data option \<Rightarrow> bool \<Rightarrow> bool \<Rightarrow> tcs \<Rightarrow> tcs" where
  "update rd atime_ok control_ok s =
     (case rd of
        None \<Rightarrow> s\<lparr>warning := True\<rparr>
      | Some (Data d0 d1 d2 d3 d4 d5 d6 d7) \<Rightarrow>
          let raw_c = le16 d0 d1;
              raw_r = le16 d2 d3;
              raw_g = le16 d4 d5;
              raw_b = le16 d6 d7;
              s1 = (if has_illuminance_sensor s \<or> has_color_temperature_sensor s
                    then calculate_temperature_and_lux raw_r raw_g raw_b raw_c s
                    else s);
              s2 = (if integration_time_auto s1
                    then auto_exposure raw_c atime_ok control_ok s1
                    else s1)
          in s2\<lparr>warning := False\<rparr>)"

subsection \<open>Concrete samples\<close>

text \<open>Three component states used to evaluate the code at concrete inputs. All pair an
  integration register with its integration time in milliseconds: register \<^verbatim>\<open>0xC0\<close> with
  153.6 ms, register 0 with 614.4 ms. The bright sample sits behind glass of 25 percent
  transmissivity (attenuation factor 4).\<close>

definition normal_sample_state :: tcs where
  "normal_sample_state =
     \<lparr>integration_reg = 0xC0, gain_reg = 0, integration_time = 153.6, gain = 1,
      glass_attenuation = 1, integration_time_auto = True, illuminance = NaN,
      color_temperature = NaN, has_illuminance_sensor = True,
      has_color_temperature_sensor = True, failed = False, warning = False\<rparr>"

definition bright_sample_state :: tcs where
  "bright_sample_state =
     \<lparr>integration_reg = 0xC0, gain_reg = 0, integration_time = 153.6, gain = 1,
      glass_attenuation = 4, integration_time_auto = True, illuminance = NaN,
      color_temperature = NaN, has_illuminance_sensor = True,
      has_color_temperature_sensor = True, failed = False, warning = False\<rparr>"

definition dim_sample_state :: tcs where
  "dim_sample_state =
     \<lparr>integration_reg = 0, gain_reg = 0, integration_time = 614.4, gain = 1,
      glass_attenuation = 1, integration_time_auto = True, illuminance = NaN,
      color_temperature = NaN, has_illuminance_sensor = True,
      has_color_temperature_sensor = True, failed = False, warning = False\<rparr>"

text \<open>Two states of a run in auto mode. The first is the normal sample configured by
  \<^verbatim>\<open>set_integration_time(TCS34725_INTEGRATION_TIME_AUTO)\<close>, with \<^verbatim>\<open>0xC0\<close> for the
  154 ms register value. The second is the first after one cycle of \<^verbatim>\<open>update\<close> that reads a
  clear count of 21509 (bytes \<^verbatim>\<open>0x05\<close>, \<^verbatim>\<open>0x54\<close>) and 7000 on the other channels, and whose
  register writes succeed.\<close>

definition auto_start_state :: tcs where
  "auto_start_state =
     set_integration_time 0xC0 TCS34725_INTEGRATION_TIME_AUTO normal_sample_state"

definition second_cycle_state :: tcs where
  "second_cycle_state =
     update (Some (Data 0x05 0x54 0x58 0x1B 0x58 0x1B 0x58 0x1B)) True True auto_start_state"

section \<open>Rounding\<close>

text \<open>The rounded value is within half a unit in the last place.\<close>

lemma round_half_even_error: "\<bar>real_of_int (round_half_even y) - y\<bar> \<le> 1 / 2"
  unfolding round_half_even_def Let_def by (auto; linarith)

lemma bitlen_eqI:
  assumes "2 ^ n \<le> a" and "a < 2 ^ Suc n"
  shows "bitlen a = int (Suc n)"
proof -
  have "(0::int) < 2 ^ n" by simp
  with assms(1) have pos: "0 < a" by linarith
  from bitlen_bounds [OF pos] have b: "2 ^ nat (bitlen a - 1) \<le> a" "a < 2 ^ nat (bitlen a)"
    by simp_all
  have "(2::int) ^ n < 2 ^ nat (bitlen a)" using assms(1) b(2) by linarith
  then have 1: "n < nat (bitlen a)" by (rule power_less_imp_less_exp [rotated]) simp
  have "(2::int) ^ nat (bitlen a - 1) < 2 ^ Suc n" using assms(2) b(1) by linarith
  then have 2: "nat (bitlen a - 1) < Suc n" by (rule power_less_imp_less_exp [rotated]) simp
  from 1 2 show ?thesis by linarith
qed

text \<open>Evaluation: for a magnitude between \<open>2 ^ (n + 23)\<close> and \<open>2 ^ (n + 24)\<close> units the
  unit in the last place is \<open>2 ^ n\<close> units.\<close>

lemma f32_normal:
  assumes "2 ^ (n + 23) \<le> \<bar>x\<bar> * 2 ^ 149" and "\<bar>x\<bar> * 2 ^ 149 < 2 ^ Suc (n + 23)"
  shows "f32 x = sgn x * (real_of_int (round_half_even (\<bar>x\<bar> * 2 ^ 149 / 2 ^ n)) * 2 ^ n / 2 ^ 149)"
proof -
  let ?m = "\<bar>x\<bar> * 2 ^ 149"
  have "real_of_int (2 ^ (n + 23)) \<le> ?m"
    using assms(1) by (simp only: of_int_power of_int_numeral)
  then have lo: "2 ^ (n + 23) \<le> \<lfloor>?m\<rfloor>" by (simp only: le_floor_iff)
  have "?m < real_of_int (2 ^ Suc (n + 23))"
    using assms(2) by (simp only: of_int_power of_int_numeral)
  then have hi: "\<lfloor>?m\<rfloor> < 2 ^ Suc (n + 23)" by (simp only: floor_less_iff)
  have "bitlen \<lfloor>?m\<rfloor> = int (Suc (n + 23))" using lo hi by (rule bitlen_eqI)
  then have "nat (bitlen \<lfloor>?m\<rfloor> - 24) = n" by simp
  then show ?thesis unfolding f32_def Let_def by simp
qed

lemma f32_zero: "f32 0 = 0"
  by (simp add: f32_def)

text \<open>The relative error of rounding is at most \<open>2 ^ - 24\<close>, above the range of gradual
  underflow.\<close>

lemma f32_ulp_bound:
  "2 ^ nat (bitlen \<lfloor>m\<rfloor> - 24) \<le> max 1 (m / 2 ^ 23)" for m :: real
proof (cases "bitlen \<lfloor>m\<rfloor> \<le> 24")
  case True
  then show ?thesis by simp
next
  case False
  let ?n = "\<lfloor>m\<rfloor>"
  let ?k = "nat (bitlen ?n - 24)"
  from False have pos: "0 < ?n" using bitlen_eq_zero_iff [of ?n] by linarith
  from False have e: "nat (bitlen ?n - 1) = ?k + 23" by linarith
  from bitlen_bounds [OF pos] have "2 ^ (?k + 23) \<le> ?n" unfolding e by simp
  then have "real_of_int (2 ^ (?k + 23)) \<le> real_of_int ?n" by (simp only: of_int_le_iff)
  moreover have "real_of_int ?n \<le> m" by (rule of_int_floor_le)
  ultimately have "real_of_int (2 ^ (?k + 23)) \<le> m" by linarith
  then have "(2::real) ^ ?k * 2 ^ 23 \<le> m" by (simp add: power_add)
  then have "(2::real) ^ ?k \<le> m / 2 ^ 23" by (simp add: field_simps)
  then show ?thesis by simp
qed

lemma f32_error: "\<bar>f32 x - x\<bar> \<le> \<bar>x\<bar> / 2 ^ 24 + 1 / 2 ^ 150"
proof -
  define P :: real where "P = 2 ^ 149"
  define m where "m = \<bar>x\<bar> * P"
  define U :: real where "U = 2 ^ nat (bitlen \<lfloor>m\<rfloor> - 24)"
  define R where "R = real_of_int (round_half_even (m / U))"
  have P: "0 < P" and U: "0 < U" by (simp_all add: P_def U_def)
  have fx: "f32 x = sgn x * (R * U / P)"
    by (simp only: f32_def Let_def R_def U_def m_def P_def)
  have x: "sgn x * (m / P) = x"
    using P by (simp add: m_def sgn_mult_abs)
  have "\<bar>R - m / U\<bar> \<le> 1 / 2" unfolding R_def by (rule round_half_even_error)
  then have "\<bar>R - m / U\<bar> * U \<le> 1 / 2 * U" using U by (simp only: mult_le_cancel_right_pos)
  moreover have "\<bar>R - m / U\<bar> * U = \<bar>R * U - m\<bar>"
    using U by (simp add: abs_mult [symmetric] field_simps del: abs_mult)
  ultimately have d: "\<bar>R * U - m\<bar> \<le> U / 2" by simp
  have "f32 x - x = sgn x * (R * U / P) - sgn x * (m / P)"
    by (simp only: fx x)
  also have "\<dots> = sgn x * ((R * U - m) / P)"
    by (simp add: algebra_simps diff_divide_distrib)
  finally have "\<bar>f32 x - x\<bar> = \<bar>sgn x\<bar> * (\<bar>R * U - m\<bar> / P)"
    using P by (simp add: abs_mult)
  also have "\<dots> \<le> 1 * (\<bar>R * U - m\<bar> / P)"
    using P by (intro mult_right_mono) (simp_all add: abs_sgn_eq)
  also have "\<dots> \<le> (U / 2) / P"
    using d P by (simp only: mult_1 divide_right_mono less_imp_le)
  also have "\<dots> \<le> ((1 + m / 2 ^ 23) / 2) / P"
  proof -
    have "0 \<le> m" using P by (simp add: m_def)
    then have "max 1 (m / 2 ^ 23) \<le> 1 + m / 2 ^ 23" by simp
    with f32_ulp_bound [of m] have "U \<le> 1 + m / 2 ^ 23" unfolding U_def by linarith
    then have "U / 2 \<le> (1 + m / 2 ^ 23) / 2" by simp
    then show ?thesis using P by (simp only: divide_right_mono less_imp_le)
  qed
  also have "\<dots> = \<bar>x\<bar> / 2 ^ 24 + 1 / 2 ^ 150"
    using P by (simp add: m_def P_def field_simps)
  finally show ?thesis .
qed

lemma f32_error_le:
  assumes "\<bar>x\<bar> \<le> B"
  shows "\<bar>f32 x - x\<bar> \<le> B / 2 ^ 24 + 1 / 2 ^ 150"
proof -
  have "\<bar>x\<bar> / 2 ^ 24 \<le> B / 2 ^ 24" using assms by (simp add: divide_right_mono)
  with f32_error [of x] show ?thesis by linarith
qed

text \<open>The constants of the controller: \<^verbatim>\<open>2.4f\<close> is \<open>2.400000095367431640625\<close>, and
  \<^verbatim>\<open>2.4f * 256\<close> is \<open>614.4000244140625\<close>.\<close>

lemma f32_2_4: "f32 2.4 = 5033165 / 2097152"
  by (subst f32_normal [where n = 127]) (simp_all add: round_half_even_def)

lemma max_time: "f32 (f32 2.4 * 256) = 5033165 / 8192"
  unfolding f32_2_4 by (subst f32_normal [where n = 135]) (simp_all add: round_half_even_def)

lemma f32_655_35: "f32 655.35 = 5368627 / 8192"
  by (subst f32_normal [where n = 135]) (simp_all add: round_half_even_def)

section \<open>The photometric converter\<close>

subsection \<open>Auxiliary facts\<close>

lemmas consts_defs = DF_def R_COEF_def G_COEF_def B_COEF_def SCALING_FACTOR_def CT_COEF_def
  CT_OFFSET_def MAX_ILLUMINANCE_def MAX_COLOR_TEMPERATURE_def MIN_COLOR_TEMPERATURE_def

lemma any_sat_upd [simp]:
  "any_channel_saturated r g b c (s\<lparr>illuminance := x, color_temperature := y\<rparr>) = any_channel_saturated r g b c s"
  by (simp add: any_channel_saturated_def saturation_level_def)

lemma lux_upd [simp]:
  "lux_computed r g b (s\<lparr>illuminance := x, color_temperature := y\<rparr>) = lux_computed r g b s"
  by (simp add: lux_computed_def)

lemma fmax_zero_cases:
  "fmax a (Fin 0) = NaN \<or> fmax a (Fin 0) = PInf \<or> (\<exists>x. fmax a (Fin 0) = Fin x \<and> 0 \<le> x)"
  by (cases a) (auto simp add: fmax_def)

lemma lux_computed_cases:
  "lux_computed r g b s = NaN \<or> lux_computed r g b s = PInf \<or>
   (\<exists>x. lux_computed r g b s = Fin x \<and> 0 \<le> x)"
  unfolding lux_computed_def Let_def by (rule fmax_zero_cases)

text \<open>The colour temperature formula never goes below its offset: the channel counts are
  unsigned. The code evaluates it for \<open>r \<noteq> 0\<close> only.\<close>

lemma ct_computed_lower: "r \<noteq> 0 \<Longrightarrow> 1391 \<le> ct_computed r b"
proof -
  have "0 \<le> (3810 * real (unat b)) / real (unat r)"
    by (rule divide_nonneg_nonneg) (simp_all del: of_nat_unat)
  then show ?thesis
    unfolding ct_computed_def CT_COEF_def CT_OFFSET_def by linarith
qed

text \<open>The converter by cases. The "too low" branch does not appear: it is dead code, by
  \<open>ct_computed_lower\<close>.\<close>

lemma calc_cases:
  "calculate_temperature_and_lux r g b c s =
     (if c = 0 \<or> any_channel_saturated r g b c s \<or> flt_less (Fin MAX_ILLUMINANCE) (lux_computed r g b s)
      then s\<lparr>illuminance := NaN, color_temperature := NaN\<rparr>
      else if r = 0 \<or> MAX_COLOR_TEMPERATURE < ct_computed r b
      then s\<lparr>illuminance := lux_computed r g b s, color_temperature := NaN\<rparr>
      else s\<lparr>illuminance := lux_computed r g b s, color_temperature := Fin (ct_computed r b)\<rparr>)"
  using ct_computed_lower [of r b]
  by (cases "r = 0") (simp_all add: calculate_temperature_and_lux_def Let_def MIN_COLOR_TEMPERATURE_def)

lemma calc_shape:
  "\<exists>x y. calculate_temperature_and_lux r g b c s = s\<lparr>illuminance := x, color_temperature := y\<rparr>"
  by (simp add: calc_cases) blast

text \<open>The concrete samples, evaluated.\<close>

lemma bright_sat: "saturation_level bright_sample_state = 65535"
  by (simp add: saturation_level_def bright_sample_state_def)

lemma bright_not_saturated: "\<not> any_channel_saturated 25000 25000 10000 60000 bright_sample_state"
  by (simp add: any_channel_saturated_def check_saturation_def bright_sat)

lemma bright_lux: "lux_computed 25000 25000 10000 bright_sample_state = Fin (2235255 / 16)"
  by (simp add: lux_computed_def bright_sample_state_def consts_defs fmax_def)

lemma bright_over_limit:
  "flt_less (Fin MAX_ILLUMINANCE) (lux_computed 25000 25000 10000 bright_sample_state)"
  by (simp add: bright_lux MAX_ILLUMINANCE_def)

lemma bright_ct: "ct_computed 25000 10000 = 2915"
  by (simp add: ct_computed_def consts_defs)

lemma normal_sat: "saturation_level normal_sample_state = 65535"
  by (simp add: saturation_level_def normal_sample_state_def)

lemma normal_not_saturated: "\<not> any_channel_saturated 4000 5000 1000 10000 normal_sample_state"
  by (simp add: any_channel_saturated_def check_saturation_def normal_sat)

lemma normal_lux: "\<not> flt_less (Fin MAX_ILLUMINANCE) (lux_computed 4000 5000 1000 normal_sample_state)"
  by (simp add: lux_computed_def normal_sample_state_def consts_defs fmax_def)

lemma normal_ct: "ct_computed 4000 1000 = 2343.5"
  by (simp add: ct_computed_def consts_defs)

subsection \<open>Zero clear count\<close>

text \<open>
  Claim C6. For every raw sample with \<open>c = 0\<close> the converter leaves both illuminance and
  colour temperature undefined (NaN), whatever the other channels and the settings are.
\<close>

theorem zero_clear_both_undefined:
  "illuminance (calculate_temperature_and_lux r g b 0 s) = NaN \<and>
   color_temperature (calculate_temperature_and_lux r g b 0 s) = NaN"
  by (simp add: calculate_temperature_and_lux_def)

subsection \<open>Saturation\<close>

text \<open>
  Claim C4. For every integration register value the saturation threshold of the converter is
  \<open>1024 * (256 - integration_reg)\<close> when \<open>256 - integration_reg \<le> 63\<close> and \<open>65535\<close>
  otherwise, and it is reduced to 75 percent of that value whenever the integration time in
  milliseconds is below 150.
\<close>

theorem saturation_level_formula:
  "saturation_level s =
     (let base = (if 256 - uint (integration_reg s) \<le> 63
                  then 1024 * (256 - real_of_int (uint (integration_reg s)))
                  else 65535)
      in if integration_time s < 150 then 0.75 * base else base)"
  by (simp add: saturation_level_def Let_def)

text \<open>
  Claim C3. For every raw sample in which at least one of the four channels has a raw count
  greater than or equal to the saturation threshold, the converter returns both illuminance
  and colour temperature undefined, whatever the other channels are.
\<close>

theorem saturated_both_undefined:
  assumes "real (unat c) \<ge> saturation_level s \<or> real (unat r) \<ge> saturation_level s \<or>
           real (unat g) \<ge> saturation_level s \<or> real (unat b) \<ge> saturation_level s"
  shows "illuminance (calculate_temperature_and_lux r g b c s) = NaN \<and>
         color_temperature (calculate_temperature_and_lux r g b c s) = NaN"
proof -
  from assms have "any_channel_saturated r g b c s"
    by (auto simp add: any_channel_saturated_def check_saturation_def)
  then show ?thesis
    by (simp add: calculate_temperature_and_lux_def Let_def)
qed

text \<open>The blue channel alone at full scale discards an otherwise ordinary sample.\<close>

theorem saturated_both_undefined_witness:
  "saturation_level normal_sample_state \<le> real (unat (65535 :: 16 word)) \<and>
   illuminance (calculate_temperature_and_lux 4000 5000 65535 10000 normal_sample_state) = NaN \<and>
   color_temperature (calculate_temperature_and_lux 4000 5000 65535 10000 normal_sample_state) = NaN"
  using saturated_both_undefined [where r = 4000 and g = 5000 and b = 65535 and c = 10000
                                  and s = normal_sample_state]
  by (simp add: normal_sat)

subsection \<open>Illuminance\<close>

text \<open>
  Claim C5. For every input the illuminance output is undefined or lies between 0 and the
  limit of 100000, and whenever the computed illuminance exceeds 100000 the output is
  undefined, not 100000.
\<close>

theorem illuminance_range:
  "(illuminance (calculate_temperature_and_lux r g b c s) = NaN \<or>
    (\<exists>x. illuminance (calculate_temperature_and_lux r g b c s) = Fin x \<and>
         0 \<le> x \<and> x \<le> MAX_ILLUMINANCE)) \<and>
   (flt_less (Fin MAX_ILLUMINANCE) (lux_computed r g b s) \<longrightarrow>
      illuminance (calculate_temperature_and_lux r g b c s) = NaN)"
  using lux_computed_cases [of r g b s]
  by (auto simp add: calc_cases)

theorem illuminance_range_witness:
  "flt_less (Fin MAX_ILLUMINANCE) (lux_computed 25000 25000 10000 bright_sample_state) \<and>
   illuminance (calculate_temperature_and_lux 25000 25000 10000 60000 bright_sample_state) = NaN"
  using illuminance_range [where r = 25000 and g = 25000 and b = 10000 and c = 60000
                          and s = bright_sample_state]
  by (simp add: bright_over_limit)

subsection \<open>Colour temperature\<close>

text \<open>
  Claim C1, as stated: for every sample that passes the saturation checks (\<open>c \<noteq> 0\<close>, no
  channel saturated), with \<open>r \<noteq> 0\<close> and the computed colour temperature in
  \<open>[1000, 15000]\<close>, the colour temperature is returned as computed even if the illuminance
  was set undefined by the limit of 100000. The code returns right after it sets the
  illuminance to NaN, before the colour temperature is computed; the bright sample is such
  an input, and its colour temperature stays NaN.
\<close>

theorem ct_independent_counterexample:
  "(60000 :: 16 word) \<noteq> 0 \<and>
   \<not> any_channel_saturated 25000 25000 10000 60000 bright_sample_state \<and>
   (25000 :: 16 word) \<noteq> 0 \<and>
   1000 \<le> ct_computed 25000 10000 \<and> ct_computed 25000 10000 \<le> 15000 \<and>
   color_temperature (calculate_temperature_and_lux 25000 25000 10000 60000 bright_sample_state)
     \<noteq> Fin (ct_computed 25000 10000)"
  by (simp add: bright_not_saturated bright_ct bright_lux calculate_temperature_and_lux_def consts_defs)

text \<open>
  Claim C1, amended. For every sample that passes the saturation checks: if the computed
  illuminance exceeds 100000, both outputs are undefined; if it does not, then whenever
  \<open>r \<noteq> 0\<close> and the computed colour temperature lies in \<open>[1000, 15000]\<close>, the colour
  temperature is returned as computed.
\<close>

theorem ct_depends_on_lux_limit:
  assumes "c \<noteq> 0" and "\<not> any_channel_saturated r g b c s"
  shows "(flt_less (Fin MAX_ILLUMINANCE) (lux_computed r g b s) \<longrightarrow>
            illuminance (calculate_temperature_and_lux r g b c s) = NaN \<and>
            color_temperature (calculate_temperature_and_lux r g b c s) = NaN) \<and>
         (\<not> flt_less (Fin MAX_ILLUMINANCE) (lux_computed r g b s) \<and> r \<noteq> 0 \<and>
          MIN_COLOR_TEMPERATURE \<le> ct_computed r b \<and> ct_computed r b \<le> MAX_COLOR_TEMPERATURE \<longrightarrow>
            color_temperature (calculate_temperature_and_lux r g b c s) = Fin (ct_computed r b))"
  using assms by (simp add: calc_cases)

theorem ct_depends_on_lux_limit_witness:
  "((60000 :: 16 word) \<noteq> 0 \<and>
    \<not> any_channel_saturated 25000 25000 10000 60000 bright_sample_state \<and>
    flt_less (Fin MAX_ILLUMINANCE) (lux_computed 25000 25000 10000 bright_sample_state) \<and>
    illuminance (calculate_temperature_and_lux 25000 25000 10000 60000 bright_sample_state) = NaN \<and>
    color_temperature (calculate_temperature_and_lux 25000 25000 10000 60000 bright_sample_state) = NaN) \<and>
   ((10000 :: 16 word) \<noteq> 0 \<and>
    \<not> any_channel_saturated 4000 5000 1000 10000 normal_sample_state \<and>
    \<not> flt_less (Fin MAX_ILLUMINANCE) (lux_computed 4000 5000 1000 normal_sample_state) \<and>
    (4000 :: 16 word) \<noteq> 0 \<and>
    MIN_COLOR_TEMPERATURE \<le> ct_computed 4000 1000 \<and>
    ct_computed 4000 1000 \<le> MAX_COLOR_TEMPERATURE \<and>
    color_temperature (calculate_temperature_and_lux 4000 5000 1000 10000 normal_sample_state)
      = Fin (ct_computed 4000 1000))"
  using ct_depends_on_lux_limit [where r = 25000 and g = 25000 and b = 10000 and c = 60000
                                 and s = bright_sample_state]
        ct_depends_on_lux_limit [where r = 4000 and g = 5000 and b = 1000 and c = 10000
                                 and s = normal_sample_state]
  by (simp add: bright_not_saturated bright_over_limit normal_not_saturated normal_lux normal_ct
        MIN_COLOR_TEMPERATURE_def MAX_COLOR_TEMPERATURE_def)

text \<open>
  Claim C10. Whenever the colour temperature is computed (\<open>r \<noteq> 0\<close>), its value
  \<open>3810 * b / r + 1391\<close> is at least 1391, so the test against the minimum of 1000 is
  false. The colour temperature output is undefined exactly when \<open>c = 0\<close>, or a channel is
  saturated, or the computed illuminance exceeds its limit, or \<open>r = 0\<close>, or the computed
  colour temperature exceeds 15000.
\<close>

theorem ct_undefined_paths:
  "(r \<noteq> 0 \<longrightarrow> 1391 \<le> ct_computed r b \<and>
      \<not> flt_less (Fin (ct_computed r b)) (Fin MIN_COLOR_TEMPERATURE)) \<and>
   (color_temperature (calculate_temperature_and_lux r g b c s) = NaN \<longleftrightarrow>
      (c = 0 \<or> any_channel_saturated r g b c s \<or>
       flt_less (Fin MAX_ILLUMINANCE) (lux_computed r g b s) \<or>
       r = 0 \<or> MAX_COLOR_TEMPERATURE < ct_computed r b))"
  using ct_computed_lower [of r b]
  by (cases "r = 0") (simp_all add: calc_cases MIN_COLOR_TEMPERATURE_def)

theorem ct_undefined_paths_witness:
  "(4000 :: 16 word) \<noteq> 0 \<and> 1391 \<le> ct_computed 4000 1000 \<and>
   color_temperature (calculate_temperature_and_lux 4000 5000 1000 10000 normal_sample_state) \<noteq> NaN"
  using ct_undefined_paths [where r = 4000 and g = 5000 and b = 1000 and c = 10000
                             and s = normal_sample_state]
  by (simp add: normal_not_saturated normal_lux normal_ct MAX_COLOR_TEMPERATURE_def)

section \<open>The exposure controller\<close>

subsection \<open>Gain step\<close>

text \<open>The two conditions exclude each other: the clear count cannot be below 20 percent and
  above 70 percent of full scale at once.\<close>

lemma gain_steps_exclusive: "\<not> (gain_increase raw_c s \<and> gain_decrease raw_c s)"
  by (auto simp add: gain_increase_def gain_decrease_def)

lemma gain_adjustment_cases:
  "gain_adjustment raw_c s =
     (if gain_increase raw_c s
      then (gain_reg s + 1, integration_time_ideal raw_c s / 4)
      else if gain_decrease raw_c s
      then (gain_reg s - 1, integration_time_ideal raw_c s * 4)
      else (gain_reg s, integration_time_ideal raw_c s))"
  using gain_steps_exclusive [of raw_c s]
  by (auto simp add: gain_adjustment_def Let_def)

lemma uint_gain_up: "(w :: 8 word) < 3 \<Longrightarrow> uint (w + 1) = uint w + 1"
  by uint_arith simp

lemma uint_gain_down: "(w :: 8 word) > 0 \<Longrightarrow> uint (w - 1) = uint w - 1"
  by uint_arith

text \<open>
  Claim C7. In every auto-mode cycle at most one of the two gain adjustments applies
  (increase by 1 with the ideal time divided by 4, tested first; decrease by 1 with the ideal
  time multiplied by 4), and a gain register in \<open>[0, 3]\<close> gives a new gain register in
  \<open>[0, 3]\<close>, one step away at most and without wrap-around.
\<close>

theorem gain_adjustment_one_step:
  "\<not> (gain_increase raw_c s \<and> gain_decrease raw_c s) \<and>
   gain_adjustment raw_c s =
     (if gain_increase raw_c s
      then (gain_reg s + 1, integration_time_ideal raw_c s / 4)
      else if gain_decrease raw_c s
      then (gain_reg s - 1, integration_time_ideal raw_c s * 4)
      else (gain_reg s, integration_time_ideal raw_c s)) \<and>
   (uint (gain_reg s) \<le> 3 \<longrightarrow>
      0 \<le> uint (gain_reg_val_new raw_c s) \<and> uint (gain_reg_val_new raw_c s) \<le> 3 \<and>
      uint (gain_reg_val_new raw_c s) =
        uint (gain_reg s) +
          (if gain_increase raw_c s then 1 else if gain_decrease raw_c s then - 1 else 0))"
proof -
  have up: "gain_increase raw_c s \<Longrightarrow> uint (gain_reg s + 1) = uint (gain_reg s) + 1 \<and> uint (gain_reg s) < 3"
    using uint_gain_up [of "gain_reg s"] by (simp add: gain_increase_def word_less_alt)
  have down: "gain_decrease raw_c s \<Longrightarrow> uint (gain_reg s - 1) = uint (gain_reg s) - 1 \<and> 0 < uint (gain_reg s)"
    using uint_gain_down [of "gain_reg s"] by (simp add: gain_decrease_def word_less_alt)
  show ?thesis
    using gain_steps_exclusive [of raw_c s] up down
    by (auto simp add: gain_adjustment_cases gain_reg_val_new_def)
qed

lemma dim_increase: "gain_increase 6553 dim_sample_state"
  by (simp add: gain_increase_def dim_sample_state_def)

lemma dim_gain: "gain_reg dim_sample_state = 0"
  by (simp add: dim_sample_state_def)

theorem gain_adjustment_one_step_witness:
  "uint (gain_reg dim_sample_state) \<le> 3 \<and> gain_increase 6553 dim_sample_state \<and>
   uint (gain_reg_val_new 6553 dim_sample_state) = 1"
  using gain_adjustment_one_step [of 6553 dim_sample_state]
  by (simp add: dim_increase dim_gain)

subsection \<open>Clamping and quantization\<close>

lemma saturate_time_clamp: "saturate_time t = max 154 (min (f32 (f32 2.4 * 256)) t)"
  unfolding saturate_time_def Let_def max_time by (simp add: max_def min_def)

lemma saturate_time_range: "154 \<le> saturate_time t \<and> saturate_time t \<le> 5033165 / 8192"
  unfolding saturate_time_def Let_def max_time by simp

lemma integration_time_next_range:
  "154 \<le> integration_time_next raw_c s" "integration_time_next raw_c s \<le> 5033165 / 8192"
  using saturate_time_range [of "snd (gain_adjustment raw_c s)"]
  by (simp_all add: integration_time_next_def)

text \<open>For a time in the clamped range, the rounded difference is within \<open>1 / 20000\<close> of the
  exact \<open>256 - t / 2.4\<close>: three roundings of values below 256, and the distance between
  \<^verbatim>\<open>2.4f\<close> and 2.4.\<close>

lemma quantize_error:
  assumes "154 \<le> t" and "t \<le> 5033165 / 8192"
  shows "\<bar>f32 (256 - f32 (t / f32 2.4)) - (256 - t / 2.4)\<bar> \<le> 1 / 20000"
proof -
  let ?q0 = "t / (5033165 / 2097152)"
  have q0: "64 \<le> ?q0" "?q0 \<le> 256" using assms by simp_all
  have "\<bar>f32 ?q0 - ?q0\<bar> \<le> 256 / 2 ^ 24 + 1 / 2 ^ 150"
    using q0 by (intro f32_error_le) simp
  then have e1: "\<bar>f32 ?q0 - ?q0\<bar> \<le> 1 / 60000" by simp
  have e2: "\<bar>?q0 - t / 2.4\<bar> \<le> 1 / 60000" using assms by simp
  have "\<bar>256 - f32 ?q0\<bar> \<le> 193" using e1 q0 by linarith
  then have "\<bar>f32 (256 - f32 ?q0) - (256 - f32 ?q0)\<bar> \<le> 193 / 2 ^ 24 + 1 / 2 ^ 150"
    by (rule f32_error_le)
  then have e3: "\<bar>f32 (256 - f32 ?q0) - (256 - f32 ?q0)\<bar> \<le> 1 / 60000" by simp
  from e1 e2 e3 show ?thesis unfolding f32_2_4 by linarith
qed

text \<open>So the truncated value is a register value below 192, one step at most from the floor
  of the exact difference.\<close>

lemma quantize_trunc:
  assumes "154 \<le> t" and "t \<le> 5033165 / 8192"
  shows "0 \<le> trunc_toward_zero (f32 (256 - f32 (t / f32 2.4)))"
    and "trunc_toward_zero (f32 (256 - f32 (t / f32 2.4))) \<le> 191"
    and "\<bar>trunc_toward_zero (f32 (256 - f32 (t / f32 2.4))) - \<lfloor>256 - t / 2.4\<rfloor>\<bar> \<le> 1"
proof -
  define v where "v = f32 (256 - f32 (t / f32 2.4))"
  define w where "w = 256 - t / 2.4"
  have vw: "\<bar>v - w\<bar> \<le> 1 / 20000"
    unfolding v_def w_def using assms by (rule quantize_error)
  have w: "- (1 / 20000) \<le> w" "w \<le> 1919 / 10"
    using assms by (simp_all add: w_def)
  have r: "0 \<le> trunc_toward_zero v \<and> trunc_toward_zero v \<le> 191 \<and>
           \<bar>trunc_toward_zero v - \<lfloor>w\<rfloor>\<bar> \<le> 1"
  proof (cases "0 \<le> v")
    case True
    have "trunc_toward_zero v = \<lfloor>v\<rfloor>" using True by (simp add: trunc_toward_zero_def)
    moreover have "0 \<le> \<lfloor>v\<rfloor>" using True by simp
    moreover have "\<lfloor>v\<rfloor> \<le> 191"
    proof -
      have "v < 192" using vw w by linarith
      then have "\<lfloor>v\<rfloor> < 192" by (simp add: floor_less_iff)
      then show ?thesis by simp
    qed
    moreover have "\<bar>\<lfloor>v\<rfloor> - \<lfloor>w\<rfloor>\<bar> \<le> 1"
    proof -
      have "\<lfloor>v\<rfloor> \<le> \<lfloor>w + 1\<rfloor>" using vw by (intro floor_mono) linarith
      moreover have "\<lfloor>w\<rfloor> \<le> \<lfloor>v + 1\<rfloor>" using vw by (intro floor_mono) linarith
      ultimately show ?thesis by simp
    qed
    ultimately show ?thesis by simp
  next
    case False
    with vw w have "- 1 < v" "v \<le> 0" by linarith+
    then have "\<lceil>v\<rceil> = 0" by (simp add: ceiling_eq_iff)
    with False have "trunc_toward_zero v = 0" by (simp add: trunc_toward_zero_def)
    moreover have "\<bar>\<lfloor>w\<rfloor>\<bar> \<le> 1"
    proof -
      have "- 1 \<le> w" "w < 1" using False vw w by linarith+
      then have "- 1 \<le> \<lfloor>w\<rfloor>" "\<lfloor>w\<rfloor> < 1" by (simp_all add: le_floor_iff floor_less_iff)
      then show ?thesis by simp
    qed
    ultimately show ?thesis by simp
  qed
  from r show "0 \<le> trunc_toward_zero (f32 (256 - f32 (t / f32 2.4)))"
    unfolding v_def by simp
  from r show "trunc_toward_zero (f32 (256 - f32 (t / f32 2.4))) \<le> 191"
    unfolding v_def by simp
  from r show "\<bar>trunc_toward_zero (f32 (256 - f32 (t / f32 2.4))) - \<lfloor>256 - t / 2.4\<rfloor>\<bar> \<le> 1"
    unfolding v_def w_def by simp
qed

lemma integration_reg_from_ms_uint:
  assumes "154 \<le> t" and "t \<le> 5033165 / 8192"
  shows "uint (integration_reg_from_ms t) = trunc_toward_zero (f32 (256 - f32 (t / f32 2.4)))"
  using quantize_trunc(1,2) [OF assms]
  by (simp add: integration_reg_from_ms_def u8_of_float_def uint_word_of_int)

text \<open>The cast to \<^verbatim>\<open>uint8_t\<close> in \<^verbatim>\<open>update\<close> is always defined.\<close>

lemma regval_atime_defined:
  "u8_cast_defined (f32 (256 - f32 (integration_time_next raw_c s / f32 2.4)))"
  using quantize_trunc(1,2) [OF integration_time_next_range [of raw_c s]]
  by (simp add: u8_cast_defined_def)

text \<open>The register values of the two ends of the range.\<close>

lemma reg_of_max_time: "integration_reg_from_ms (5033165 / 8192) = 0"
proof -
  have "f32 ((5033165 / 8192) / (5033165 / 2097152)) = 256"
    by (subst f32_normal [where n = 134]) (simp_all add: round_half_even_def)
  then show ?thesis
    unfolding integration_reg_from_ms_def f32_2_4
    by (simp add: f32_zero u8_of_float_def trunc_toward_zero_def)
qed

lemma reg_of_min_time: "integration_reg_from_ms 154 = 191"
proof -
  have q: "f32 (154 / (5033165 / 2097152)) = 8410453 / 131072"
    by (subst f32_normal [where n = 132]) (simp_all add: round_half_even_def)
  have v: "f32 (256 - 8410453 / 131072) = 6285995 / 32768"
    by (subst f32_normal [where n = 133]) (simp_all add: round_half_even_def)
  show ?thesis
    unfolding integration_reg_from_ms_def f32_2_4 q v
    by (simp add: u8_of_float_def trunc_toward_zero_def)
qed

text \<open>
  Claim C8, amended. For every ideal integration time the proposed integration register is
  \<^verbatim>\<open>(uint8_t) (256.f - t / 2.4f)\<close> evaluated in single precision, where \<open>t\<close> is the ideal time
  clamped to the range from 154 ms to \<^verbatim>\<open>2.4f * 256\<close>, which is \<open>614.4000244140625\<close> ms. The
  cast is defined, the register is at most 191, and it differs from \<open>\<lfloor>256 - t / 2.4\<rfloor>\<close> by
  one step at most. An ideal time of 1000 ms is clamped to the upper bound, which gives
  register 0, and one of 50 ms to 154 ms, which gives register 191.
\<close>

theorem regval_atime_within_one_step:
  "integration_time_next raw_c s =
     max 154 (min (f32 (f32 2.4 * 256)) (snd (gain_adjustment raw_c s))) \<and>
   regval_atime raw_c s =
     u8_of_float (f32 (256 - f32 (integration_time_next raw_c s / f32 2.4))) \<and>
   u8_cast_defined (f32 (256 - f32 (integration_time_next raw_c s / f32 2.4))) \<and>
   uint (regval_atime raw_c s) \<le> 191 \<and>
   \<bar>uint (regval_atime raw_c s) - \<lfloor>256 - integration_time_next raw_c s / 2.4\<rfloor>\<bar> \<le> 1 \<and>
   f32 (f32 2.4 * 256) = 5033165 / 8192 \<and>
   saturate_time 1000 = f32 (f32 2.4 * 256) \<and> saturate_time 50 = 154 \<and>
   integration_reg_from_ms (saturate_time 1000) = 0 \<and>
   integration_reg_from_ms (saturate_time 50) = 191"
proof -
  note r = integration_time_next_range [of raw_c s]
  have u: "uint (regval_atime raw_c s) =
           trunc_toward_zero (f32 (256 - f32 (integration_time_next raw_c s / f32 2.4)))"
    unfolding regval_atime_def using r by (rule integration_reg_from_ms_uint)
  have ends: "saturate_time 1000 = 5033165 / 8192" "saturate_time 50 = 154"
    unfolding saturate_time_def Let_def max_time by simp_all
  have "integration_time_next raw_c s =
          max 154 (min (f32 (f32 2.4 * 256)) (snd (gain_adjustment raw_c s)))"
    by (simp only: integration_time_next_def saturate_time_clamp)
  moreover have "regval_atime raw_c s =
          u8_of_float (f32 (256 - f32 (integration_time_next raw_c s / f32 2.4)))"
    by (simp only: regval_atime_def integration_reg_from_ms_def)
  moreover note regval_atime_defined [of raw_c s]
  moreover have "uint (regval_atime raw_c s) \<le> 191"
    unfolding u using r by (rule quantize_trunc(2))
  moreover have "\<bar>uint (regval_atime raw_c s) -
          \<lfloor>256 - integration_time_next raw_c s / 2.4\<rfloor>\<bar> \<le> 1"
    unfolding u using r by (rule quantize_trunc(3))
  moreover note max_time
  moreover have "saturate_time 1000 = f32 (f32 2.4 * 256)" "saturate_time 50 = 154"
    unfolding max_time by (fact ends)+
  moreover have "integration_reg_from_ms (saturate_time 1000) = 0"
    "integration_reg_from_ms (saturate_time 50) = 191"
    unfolding ends by (fact reg_of_max_time reg_of_min_time)+
  ultimately show ?thesis by blast
qed

subsection \<open>Register round trip\<close>

text \<open>A difference that is off by less than one step truncates to the register itself or to
  its neighbour below.\<close>

lemma trunc_perturbed:
  assumes "\<bar>e\<bar> < 1" and "0 \<le> (n :: int)"
  shows "(trunc_toward_zero (real_of_int n + e) = n \<or>
          trunc_toward_zero (real_of_int n + e) = n - 1) \<and>
         0 \<le> trunc_toward_zero (real_of_int n + e)"
proof (cases "0 \<le> real_of_int n + e")
  case True
  have "\<lfloor>e\<rfloor> = 0 \<or> \<lfloor>e\<rfloor> = - 1"
    using assms by (cases "0 \<le> e") (simp_all add: floor_eq_iff)
  moreover have "\<lfloor>real_of_int n + e\<rfloor> = n + \<lfloor>e\<rfloor>"
    by simp
  moreover have "0 \<le> \<lfloor>real_of_int n + e\<rfloor>"
    using True by (simp only: zero_le_floor)
  ultimately show ?thesis
    using True unfolding trunc_toward_zero_def by auto
next
  case False
  with assms have "n = 0" by linarith
  moreover from this False assms have "\<lceil>e\<rceil> = 0"
    by (simp add: ceiling_eq_iff)
  ultimately show ?thesis
    using False unfolding trunc_toward_zero_def by simp
qed

lemma roundtrip_perturbed:
  assumes "\<bar>e\<bar> < 1"
  shows "\<bar>uint (u8_of_float (real_of_int (uint (reg :: 8 word)) + e)) - uint reg\<bar> \<le> 1"
proof -
  let ?n = "uint reg"
  let ?k = "trunc_toward_zero (real_of_int ?n + e)"
  have "?n < 2 ^ LENGTH(8)" by (rule unsigned_less)
  then have n: "0 \<le> ?n" "?n \<le> 255" by simp_all
  have k: "(?k = ?n \<or> ?k = ?n - 1) \<and> 0 \<le> ?k"
    using assms n(1) by (rule trunc_perturbed)
  then have "uint (word_of_int ?k :: 8 word) = ?k"
    using n by (auto simp add: uint_word_of_int)
  then show ?thesis using k unfolding u8_of_float_def by auto
qed

text \<open>The rounded round trip ends within \<open>1 / 1000\<close> of the register value: four roundings
  of values below 616.\<close>

lemma roundtrip_error:
  assumes "n \<le> 255"
  shows "\<bar>f32 (256 - f32 (ms_from_integration_reg n / f32 2.4)) - real n\<bar> \<le> 1 / 1000"
proof -
  define k where "k = 256 - real n"
  define p0 where "p0 = k * (5033165 / 2097152)"
  define ms where "ms = f32 p0"
  define q0 where "q0 = ms / (5033165 / 2097152)"
  define q where "q = f32 q0"
  define v where "v = f32 (256 - q)"
  have k: "1 \<le> k" "k \<le> 256" using assms by (simp_all add: k_def)
  have "\<bar>p0\<bar> \<le> 615" using k by (simp add: p0_def)
  then have "\<bar>ms - p0\<bar> \<le> 615 / 2 ^ 24 + 1 / 2 ^ 150"
    unfolding ms_def by (rule f32_error_le)
  then have e1: "\<bar>ms - p0\<bar> \<le> 1 / 25000" by simp
  have "q0 = ms * (2097152 / 5033165)" by (simp add: q0_def)
  moreover have "k = p0 * (2097152 / 5033165)" by (simp add: p0_def)
  ultimately have e2: "\<bar>q0 - k\<bar> \<le> 1 / 50000" using e1 by linarith
  have "\<bar>q0\<bar> \<le> 257" using e2 k by linarith
  then have "\<bar>q - q0\<bar> \<le> 257 / 2 ^ 24 + 1 / 2 ^ 150"
    unfolding q_def by (rule f32_error_le)
  then have e3: "\<bar>q - q0\<bar> \<le> 1 / 60000" by simp
  have "\<bar>256 - q\<bar> \<le> 257" using e2 e3 k by linarith
  then have "\<bar>v - (256 - q)\<bar> \<le> 257 / 2 ^ 24 + 1 / 2 ^ 150"
    unfolding v_def by (rule f32_error_le)
  then have e4: "\<bar>v - (256 - q)\<bar> \<le> 1 / 60000" by simp
  have "\<bar>v - real n\<bar> \<le> 1 / 1000" using e2 e3 e4 k_def by linarith
  moreover have "f32 (256 - f32 (ms_from_integration_reg n / f32 2.4)) = v"
    unfolding ms_from_integration_reg_def f32_2_4
    by (simp only: v_def q_def q0_def ms_def p0_def k_def)
  ultimately show ?thesis by simp
qed

text \<open>Rounding does lose a step: register 4 is 604.800048828125 ms, the quotient is
  252.0000152587890625, and the difference truncates to 3.\<close>

lemma roundtrip_at_4: "integration_reg_from_ms (ms_from_integration_reg 4) = 3"
proof -
  have ms: "f32 ((256 - real 4) * (5033165 / 2097152)) = 2477261 / 4096"
    by (subst f32_normal [where n = 135]) (simp_all add: round_half_even_def)
  have q: "f32 ((2477261 / 4096) / (5033165 / 2097152)) = 16515073 / 65536"
    by (subst f32_normal [where n = 133]) (simp_all add: round_half_even_def)
  have v: "f32 (256 - 16515073 / 65536) = 262143 / 65536"
    by (subst f32_normal [where n = 127]) (simp_all add: round_half_even_def)
  show ?thesis
    unfolding integration_reg_from_ms_def ms_from_integration_reg_def f32_2_4 ms q v
    by (simp add: u8_of_float_def trunc_toward_zero_def)
qed

text \<open>
  Claim C9. For every integration register value \<open>reg\<close> in \<open>[0, 255]\<close>, converting it to
  milliseconds by \<open>(256 - reg) * 2.4\<close> and back by \<open>\<lfloor>256 - ms / 2.4\<rfloor>\<close> gives a register
  value that differs from \<open>reg\<close> by one step at most. The first part is the round trip as
  the code computes it, every operation rounded to single precision. The second part is the
  round trip in exact arithmetic, with a difference that is off by any error \<open>e\<close> below one
  step.
\<close>

theorem integration_reg_roundtrip:
  "\<bar>uint (integration_reg_from_ms (ms_from_integration_reg (unat (reg :: 8 word)))) - uint reg\<bar> \<le> 1 \<and>
   (\<bar>e\<bar> < 1 \<longrightarrow>
      \<bar>uint (u8_of_float (256 - (256 - real (unat reg)) * 2.4 / 2.4 + e)) - uint reg\<bar> \<le> 1)"
proof -
  have n: "unat reg \<le> 255"
  proof -
    have "unat reg < 2 ^ LENGTH(8)" by (rule unsigned_less)
    then show ?thesis by simp
  qed
  define d where "d = f32 (256 - f32 (ms_from_integration_reg (unat reg) / f32 2.4))
                        - real_of_int (uint reg)"
  have "\<bar>d\<bar> \<le> 1 / 1000" using roundtrip_error [OF n] by (simp add: d_def)
  then have "\<bar>d\<bar> < 1" by linarith
  then have "\<bar>uint (u8_of_float (real_of_int (uint reg) + d)) - uint reg\<bar> \<le> 1"
    by (rule roundtrip_perturbed)
  moreover have "integration_reg_from_ms (ms_from_integration_reg (unat reg)) =
                 u8_of_float (real_of_int (uint reg) + d)"
    by (simp add: integration_reg_from_ms_def d_def)
  moreover have "256 - (256 - real (unat reg)) * 2.4 / 2.4 + e = real_of_int (uint reg) + e"
    by (simp add: field_simps)
  ultimately show ?thesis
    using roundtrip_perturbed [of e reg] by simp
qed

theorem integration_reg_roundtrip_witness:
  "\<bar>- (1 / 2) :: real\<bar> < 1 \<and>
   \<bar>uint (u8_of_float (256 - (256 - real (unat (4 :: 8 word))) * 2.4 / 2.4 + (- (1 / 2))))
      - uint (4 :: 8 word)\<bar> \<le> 1"
  using integration_reg_roundtrip [of 4 "- (1 / 2)"]
  by simp

subsection \<open>A failed register write\<close>

lemma gain_adjustment_upd [simp]:
  "gain_adjustment raw_c (s\<lparr>illuminance := x, color_temperature := y\<rparr>) = gain_adjustment raw_c s"
  by (simp add: gain_adjustment_cases gain_increase_def gain_decrease_def integration_time_ideal_def)

lemma proposal_upd [simp]:
  "gain_reg_val_new raw_c (s\<lparr>illuminance := x, color_temperature := y\<rparr>) = gain_reg_val_new raw_c s"
  "integration_time_next raw_c (s\<lparr>illuminance := x, color_temperature := y\<rparr>) = integration_time_next raw_c s"
  "regval_atime raw_c (s\<lparr>illuminance := x, color_temperature := y\<rparr>) = regval_atime raw_c s"
  by (simp_all add: gain_reg_val_new_def integration_time_next_def regval_atime_def)

lemma set_gain_fields [simp]:
  "gain_reg (set_gain g s) = g"
  "integration_reg (set_gain g s) = integration_reg s"
  "integration_time (set_gain g s) = integration_time s"
  "failed (set_gain g s) = failed s"
  by (simp_all add: set_gain_def Let_def)

lemma auto_exposure_failed_write:
  assumes "integration_reg s \<noteq> regval_atime raw_c s \<or> gain_reg_val_new raw_c s \<noteq> gain_reg s"
    and "\<not> atime_ok \<or> \<not> control_ok"
  shows "integration_time (auto_exposure raw_c atime_ok control_ok s) = integration_time s"
    and "integration_reg (auto_exposure raw_c atime_ok control_ok s) = regval_atime raw_c s"
    and "gain_reg (auto_exposure raw_c atime_ok control_ok s) = gain_reg_val_new raw_c s"
    and "failed (auto_exposure raw_c atime_ok control_ok s)"
  using assms by (auto simp add: auto_exposure_def Let_def)

lemma update_auto_shape:
  assumes "integration_time_auto s"
  shows "\<exists>x y. update (Some (Data d0 d1 d2 d3 d4 d5 d6 d7)) atime_ok control_ok s =
           (auto_exposure (le16 d0 d1) atime_ok control_ok
              (s\<lparr>illuminance := x, color_temperature := y\<rparr>))\<lparr>warning := False\<rparr>"
proof (cases "has_illuminance_sensor s \<or> has_color_temperature_sensor s")
  case True
  obtain x y where
    "calculate_temperature_and_lux (le16 d2 d3) (le16 d4 d5) (le16 d6 d7) (le16 d0 d1) s =
       s\<lparr>illuminance := x, color_temperature := y\<rparr>"
    using calc_shape by blast
  with True assms have "update (Some (Data d0 d1 d2 d3 d4 d5 d6 d7)) atime_ok control_ok s =
           (auto_exposure (le16 d0 d1) atime_ok control_ok
              (s\<lparr>illuminance := x, color_temperature := y\<rparr>))\<lparr>warning := False\<rparr>"
    by (simp add: update_def Let_def)
  then show ?thesis by blast
next
  case False
  have "s\<lparr>illuminance := illuminance s, color_temperature := color_temperature s\<rparr> = s"
    by simp
  with False assms have "update (Some (Data d0 d1 d2 d3 d4 d5 d6 d7)) atime_ok control_ok s =
           (auto_exposure (le16 d0 d1) atime_ok control_ok
              (s\<lparr>illuminance := illuminance s, color_temperature := color_temperature s\<rparr>))\<lparr>warning := False\<rparr>"
    by (simp add: update_def Let_def)
  then show ?thesis by blast
qed

lemma update_failed_write:
  assumes auto: "integration_time_auto s"
    and differ: "integration_reg s \<noteq> regval_atime (le16 d0 d1) s \<or>
                 gain_reg_val_new (le16 d0 d1) s \<noteq> gain_reg s"
    and fail: "\<not> atime_ok \<or> \<not> control_ok"
  shows "integration_time (update (Some (Data d0 d1 d2 d3 d4 d5 d6 d7)) atime_ok control_ok s)
           = integration_time s"
    and "integration_reg (update (Some (Data d0 d1 d2 d3 d4 d5 d6 d7)) atime_ok control_ok s)
           = regval_atime (le16 d0 d1) s"
    and "gain_reg (update (Some (Data d0 d1 d2 d3 d4 d5 d6 d7)) atime_ok control_ok s)
           = gain_reg_val_new (le16 d0 d1) s"
    and "failed (update (Some (Data d0 d1 d2 d3 d4 d5 d6 d7)) atime_ok control_ok s)"
proof -
  obtain x y where upd: "update (Some (Data d0 d1 d2 d3 d4 d5 d6 d7)) atime_ok control_ok s =
           (auto_exposure (le16 d0 d1) atime_ok control_ok
              (s\<lparr>illuminance := x, color_temperature := y\<rparr>))\<lparr>warning := False\<rparr>"
    using update_auto_shape [OF auto] by blast
  let ?s1 = "s\<lparr>illuminance := x, color_temperature := y\<rparr>"
  have differ1: "integration_reg ?s1 \<noteq> regval_atime (le16 d0 d1) ?s1 \<or>
                 gain_reg_val_new (le16 d0 d1) ?s1 \<noteq> gain_reg ?s1"
    using differ by simp
  note r = auto_exposure_failed_write [OF differ1 fail]
  show "integration_time (update (Some (Data d0 d1 d2 d3 d4 d5 d6 d7)) atime_ok control_ok s)
           = integration_time s"
    unfolding upd using r(1) by simp
  show "integration_reg (update (Some (Data d0 d1 d2 d3 d4 d5 d6 d7)) atime_ok control_ok s)
           = regval_atime (le16 d0 d1) s"
    unfolding upd using r(2) by simp
  show "gain_reg (update (Some (Data d0 d1 d2 d3 d4 d5 d6 d7)) atime_ok control_ok s)
           = gain_reg_val_new (le16 d0 d1) s"
    unfolding upd using r(3) by simp
  show "failed (update (Some (Data d0 d1 d2 d3 d4 d5 d6 d7)) atime_ok control_ok s)"
    unfolding upd using r(4) by simp
qed

lemma auto_exposure_successful_write:
  assumes "integration_reg s \<noteq> regval_atime raw_c s \<or> gain_reg_val_new raw_c s \<noteq> gain_reg s"
  shows "integration_time (auto_exposure raw_c True True s) = integration_time_next raw_c s"
    and "integration_reg (auto_exposure raw_c True True s) = regval_atime raw_c s"
    and "gain_reg (auto_exposure raw_c True True s) = gain_reg_val_new raw_c s"
  using assms by (auto simp add: auto_exposure_def Let_def)

lemma update_successful_write:
  assumes auto: "integration_time_auto s"
    and differ: "integration_reg s \<noteq> regval_atime (le16 d0 d1) s \<or>
                 gain_reg_val_new (le16 d0 d1) s \<noteq> gain_reg s"
  shows "integration_time (update (Some (Data d0 d1 d2 d3 d4 d5 d6 d7)) True True s)
           = integration_time_next (le16 d0 d1) s"
    and "integration_reg (update (Some (Data d0 d1 d2 d3 d4 d5 d6 d7)) True True s)
           = regval_atime (le16 d0 d1) s"
    and "gain_reg (update (Some (Data d0 d1 d2 d3 d4 d5 d6 d7)) True True s)
           = gain_reg_val_new (le16 d0 d1) s"
proof -
  obtain x y where upd: "update (Some (Data d0 d1 d2 d3 d4 d5 d6 d7)) True True s =
           (auto_exposure (le16 d0 d1) True True
              (s\<lparr>illuminance := x, color_temperature := y\<rparr>))\<lparr>warning := False\<rparr>"
    using update_auto_shape [OF auto] by blast
  let ?s1 = "s\<lparr>illuminance := x, color_temperature := y\<rparr>"
  have differ1: "integration_reg ?s1 \<noteq> regval_atime (le16 d0 d1) ?s1 \<or>
                 gain_reg_val_new (le16 d0 d1) ?s1 \<noteq> gain_reg ?s1"
    using differ by simp
  note r = auto_exposure_successful_write [OF differ1]
  show "integration_time (update (Some (Data d0 d1 d2 d3 d4 d5 d6 d7)) True True s)
           = integration_time_next (le16 d0 d1) s"
    unfolding upd using r(1) by simp
  show "integration_reg (update (Some (Data d0 d1 d2 d3 d4 d5 d6 d7)) True True s)
           = regval_atime (le16 d0 d1) s"
    unfolding upd using r(2) by simp
  show "gain_reg (update (Some (Data d0 d1 d2 d3 d4 d5 d6 d7)) True True s)
           = gain_reg_val_new (le16 d0 d1) s"
    unfolding upd using r(3) by simp
qed

lemma le16_100: "le16 100 0 = 100"
  by (simp add: le16_def)

lemma normal_fields:
  "integration_time_auto normal_sample_state"
  "integration_reg normal_sample_state = 0xC0"
  "gain_reg normal_sample_state = 0"
  "integration_time normal_sample_state = 153.6"
  by (simp_all add: normal_sample_state_def)

text \<open>A clear count of 100 with 153.6 ms cached: the ideal time is about 60397 ms, far above
  the range, and the proposal is register 0 with the gain unchanged.\<close>

lemma normal_ideal: "integration_time_ideal 100 normal_sample_state = 15461645 / 256"
proof -
  have a: "f32 (real (unat (max 1 (100 :: 16 word))) / (5368627 / 8192)) = 10240157 / 67108864"
    by (subst f32_normal [where n = 123]) (simp_all add: round_half_even_def)
  have b: "f32 (60 / (10240157 / 67108864)) = 402647 / 1024"
    by (subst f32_normal [where n = 134]) (simp_all add: round_half_even_def)
  have i: "f32 (402647 / 1024 * 153.6) = 15461645 / 256"
    by (subst f32_normal [where n = 141]) (simp_all add: round_half_even_def)
  show ?thesis
    unfolding integration_time_ideal_def f32_655_35 a b normal_fields i ..
qed

lemma normal_proposal:
  "regval_atime 100 normal_sample_state = 0"
  "gain_reg_val_new 100 normal_sample_state = 0"
proof -
  have g: "gain_adjustment 100 normal_sample_state = (0, 15461645 / 256)"
    by (simp add: gain_adjustment_cases gain_increase_def gain_decrease_def normal_fields
          normal_ideal)
  have st: "saturate_time (15461645 / 256) = 5033165 / 8192"
    unfolding saturate_time_def Let_def max_time by simp
  show "regval_atime 100 normal_sample_state = 0"
    by (simp only: regval_atime_def integration_time_next_def g snd_conv st reg_of_max_time)
  show "gain_reg_val_new 100 normal_sample_state = 0"
    by (simp add: gain_reg_val_new_def g)
qed

lemma normal_update_failed_reg:
  "integration_reg (update (Some (Data 100 0 30 0 30 0 30 0)) False False normal_sample_state) = 0"
  using update_failed_write(2) [where s = normal_sample_state and ?d0.0 = 100 and ?d1.0 = 0
          and ?d2.0 = 30 and ?d3.0 = 0 and ?d4.0 = 30 and ?d5.0 = 0 and ?d6.0 = 30 and ?d7.0 = 0
          and atime_ok = False and control_ok = False]
  by (simp add: le16_100 normal_proposal normal_fields)

text \<open>
  Claim C2, as stated: in every auto-mode cycle in which the proposed settings differ from
  the current ones and the register write fails, the integration register, the gain register
  and the cached integration time all keep their values. The code assigns both register
  fields before it writes to the device. With a clear count of 100 at 153.6 ms the proposal
  is register 0, and after the failed write the integration register field is 0, not
  \<^verbatim>\<open>0xC0\<close>.
\<close>

theorem failed_write_counterexample:
  "integration_time_auto normal_sample_state \<and>
   integration_reg normal_sample_state \<noteq> regval_atime (le16 100 0) normal_sample_state \<and>
   integration_reg (update (Some (Data 100 0 30 0 30 0 30 0)) False False normal_sample_state)
     \<noteq> integration_reg normal_sample_state"
  by (simp add: normal_update_failed_reg le16_100 normal_proposal normal_fields)

text \<open>
  Claim C2, amended. In every auto-mode cycle in which the proposed settings differ from the
  current ones and a register write fails, the cached integration time in milliseconds keeps
  its value, the integration register and gain register fields hold the proposed values, and
  the component is marked failed.
\<close>

theorem failed_write_state:
  assumes auto: "integration_time_auto s"
    and differ: "integration_reg s \<noteq> regval_atime (le16 d0 d1) s \<or>
                 gain_reg_val_new (le16 d0 d1) s \<noteq> gain_reg s"
    and fail: "\<not> atime_ok \<or> \<not> control_ok"
  shows "integration_time (update (Some (Data d0 d1 d2 d3 d4 d5 d6 d7)) atime_ok control_ok s)
           = integration_time s \<and>
         integration_reg (update (Some (Data d0 d1 d2 d3 d4 d5 d6 d7)) atime_ok control_ok s)
           = regval_atime (le16 d0 d1) s \<and>
         gain_reg (update (Some (Data d0 d1 d2 d3 d4 d5 d6 d7)) atime_ok control_ok s)
           = gain_reg_val_new (le16 d0 d1) s \<and>
         failed (update (Some (Data d0 d1 d2 d3 d4 d5 d6 d7)) atime_ok control_ok s)"
  using update_failed_write [OF auto differ fail] by simp

theorem failed_write_state_witness:
  "integration_time_auto normal_sample_state \<and>
   integration_reg normal_sample_state \<noteq> regval_atime (le16 100 0) normal_sample_state \<and>
   integration_time (update (Some (Data 100 0 30 0 30 0 30 0)) False False normal_sample_state) = 153.6 \<and>
   integration_reg (update (Some (Data 100 0 30 0 30 0 30 0)) False False normal_sample_state) = 0 \<and>
   gain_reg (update (Some (Data 100 0 30 0 30 0 30 0)) False False normal_sample_state) = 0 \<and>
   failed (update (Some (Data 100 0 30 0 30 0 30 0)) False False normal_sample_state)"
  using failed_write_state [where s = normal_sample_state and ?d0.0 = 100 and ?d1.0 = 0
          and ?d2.0 = 30 and ?d3.0 = 0 and ?d4.0 = 30 and ?d5.0 = 0 and ?d6.0 = 30 and ?d7.0 = 0
          and atime_ok = False and control_ok = False]
  by (simp add: le16_100 normal_proposal normal_fields)

subsection \<open>Two cycles in auto mode\<close>

text \<open>The start state: \<^verbatim>\<open>set_integration_time\<close> stores register \<^verbatim>\<open>0xC0\<close> and the
  \<^verbatim>\<open>float\<close> product of 64 and \<^verbatim>\<open>2.4f\<close>, 153.600006103515625 ms.\<close>

lemma auto_start_fields:
  "integration_time_auto auto_start_state"
  "integration_reg auto_start_state = 0xC0"
  "gain_reg auto_start_state = 0"
  "integration_time auto_start_state = 5033165 / 32768"
proof -
  have "f32 ((256 - real 192) * (5033165 / 2097152)) = 5033165 / 32768"
    by (subst f32_normal [where n = 133]) (simp_all add: round_half_even_def)
  then have ms: "ms_from_integration_reg 192 = 5033165 / 32768"
    unfolding ms_from_integration_reg_def f32_2_4 .
  show "integration_time_auto auto_start_state"
    "integration_reg auto_start_state = 0xC0"
    "gain_reg auto_start_state = 0"
    "integration_time auto_start_state = 5033165 / 32768"
    by (simp_all add: auto_start_state_def set_integration_time_def
          TCS34725_INTEGRATION_TIME_AUTO_def normal_sample_state_def ms)
qed

text \<open>First cycle, clear count 21509: the ideal time is 280.798980712890625 ms, inside the
  range, and the register is 139.\<close>

lemma first_cycle_ideal: "integration_time_ideal 21509 auto_start_state = 9201221 / 32768"
proof -
  have a: "f32 (real (unat (max 1 (21509 :: 16 word))) / (5368627 / 8192)) = 2150933 / 65536"
    by (subst f32_normal [where n = 131]) (simp_all add: round_half_even_def)
  have b: "f32 (60 / (2150933 / 65536)) = 1916921 / 1048576"
    by (subst f32_normal [where n = 126]) (simp_all add: round_half_even_def)
  have i: "f32 (1916921 / 1048576 * (5033165 / 32768)) = 9201221 / 32768"
    by (subst f32_normal [where n = 134]) (simp_all add: round_half_even_def)
  show ?thesis
    unfolding integration_time_ideal_def f32_655_35 a b auto_start_fields i ..
qed

lemma first_cycle_proposal:
  "gain_reg_val_new 21509 auto_start_state = 0"
  "integration_time_next 21509 auto_start_state = 9201221 / 32768"
  "regval_atime 21509 auto_start_state = 139"
proof -
  have g: "gain_adjustment 21509 auto_start_state = (0, 9201221 / 32768)"
    by (simp add: gain_adjustment_cases gain_increase_def gain_decrease_def auto_start_fields
          first_cycle_ideal)
  have st: "saturate_time (9201221 / 32768) = 9201221 / 32768"
    unfolding saturate_time_def Let_def max_time by simp
  have q: "f32 ((9201221 / 32768) / (5033165 / 2097152)) = 1916921 / 16384"
    by (subst f32_normal [where n = 132]) (simp_all add: round_half_even_def)
  have v: "f32 (256 - 1916921 / 16384) = 2277383 / 16384"
    by (subst f32_normal [where n = 133]) (simp_all add: round_half_even_def)
  have r: "integration_reg_from_ms (9201221 / 32768) = 139"
    unfolding integration_reg_from_ms_def f32_2_4 q v
    by (simp add: u8_of_float_def trunc_toward_zero_def)
  show "gain_reg_val_new 21509 auto_start_state = 0"
    by (simp add: gain_reg_val_new_def g)
  show n: "integration_time_next 21509 auto_start_state = 9201221 / 32768"
    by (simp only: integration_time_next_def g snd_conv st)
  show "regval_atime 21509 auto_start_state = 139"
    by (simp only: regval_atime_def n r)
qed

lemma le16_21509: "le16 0x05 0x54 = 21509"
  by (simp add: le16_def)

text \<open>Both writes succeed, so the second state holds register 139 and 280.798980712890625
  ms.\<close>

lemma second_cycle_fields:
  "integration_time second_cycle_state = 9201221 / 32768"
  "integration_reg second_cycle_state = 139"
  "gain_reg second_cycle_state = 0"
proof -
  have differ: "integration_reg auto_start_state \<noteq> regval_atime (le16 0x05 0x54) auto_start_state \<or>
      gain_reg_val_new (le16 0x05 0x54) auto_start_state \<noteq> gain_reg auto_start_state"
    by (simp add: le16_21509 first_cycle_proposal auto_start_fields)
  note r = update_successful_write [OF auto_start_fields(1) differ,
      where ?d2.0 = "0x58" and ?d3.0 = "0x1B" and ?d4.0 = "0x58" and ?d5.0 = "0x1B"
        and ?d6.0 = "0x58" and ?d7.0 = "0x1B"]
  show "integration_time second_cycle_state = 9201221 / 32768"
    unfolding second_cycle_state_def r(1) le16_21509 by (rule first_cycle_proposal)
  show "integration_reg second_cycle_state = 139"
    unfolding second_cycle_state_def r(2) le16_21509 by (rule first_cycle_proposal)
  show "gain_reg second_cycle_state = 0"
    unfolding second_cycle_state_def r(3) le16_21509 by (rule first_cycle_proposal)
qed

text \<open>Second cycle, clear count 19330: the ideal time is 571.20001220703125 ms. The quotient
  by \<^verbatim>\<open>2.4f\<close> is 237.99999563 and rounds to 238, so the register is 18. The exact quotient by
  2.4 is 238.000005, and the floor of the exact difference is 17.\<close>

lemma second_cycle_ideal: "integration_time_ideal 19330 second_cycle_state = 9358541 / 16384"
proof -
  have a: "f32 (real (unat (max 1 (19330 :: 16 word))) / (5368627 / 8192)) = 15464237 / 524288"
    by (subst f32_normal [where n = 130]) (simp_all add: round_half_even_def)
  have b: "f32 (60 / (15464237 / 524288)) = 4266017 / 2097152"
    by (subst f32_normal [where n = 127]) (simp_all add: round_half_even_def)
  have i: "f32 (4266017 / 2097152 * (9201221 / 32768)) = 9358541 / 16384"
    by (subst f32_normal [where n = 135]) (simp_all add: round_half_even_def)
  show ?thesis
    unfolding integration_time_ideal_def f32_655_35 a b second_cycle_fields i ..
qed

lemma second_cycle_proposal:
  "integration_time_next 19330 second_cycle_state = 9358541 / 16384"
  "regval_atime 19330 second_cycle_state = 18"
proof -
  have g: "gain_adjustment 19330 second_cycle_state = (0, 9358541 / 16384)"
    by (simp add: gain_adjustment_cases gain_increase_def gain_decrease_def second_cycle_fields
          second_cycle_ideal)
  have st: "saturate_time (9358541 / 16384) = 9358541 / 16384"
    unfolding saturate_time_def Let_def max_time by simp
  have q: "f32 ((9358541 / 16384) / (5033165 / 2097152)) = 238"
    by (subst f32_normal [where n = 133]) (simp_all add: round_half_even_def)
  have v: "f32 (256 - 238) = 18"
    by (subst f32_normal [where n = 130]) (simp_all add: round_half_even_def)
  have r: "integration_reg_from_ms (9358541 / 16384) = 18"
    unfolding integration_reg_from_ms_def f32_2_4 q v
    by (simp add: u8_of_float_def trunc_toward_zero_def)
  show n: "integration_time_next 19330 second_cycle_state = 9358541 / 16384"
    by (simp only: integration_time_next_def g snd_conv st)
  show "regval_atime 19330 second_cycle_state = 18"
    by (simp only: regval_atime_def n r)
qed

text \<open>
  Claim C8, as stated: for every computed ideal integration time the proposed integration
  register equals \<open>\<lfloor>256 - t / 2.4\<rfloor>\<close>, where \<open>t\<close> is the ideal time clamped to the range. In
  the second cycle of the run above the clamped time is 571.20001220703125 ms, the code
  proposes register 18, and \<open>\<lfloor>256 - t / 2.4\<rfloor>\<close> is 17.
\<close>

theorem regval_atime_floor_counterexample:
  "integration_time_next 19330 second_cycle_state = 9358541 / 16384 \<and>
   uint (regval_atime 19330 second_cycle_state) = 18 \<and>
   \<lfloor>256 - integration_time_next 19330 second_cycle_state / 2.4\<rfloor> = 17 \<and>
   uint (regval_atime 19330 second_cycle_state)
     \<noteq> \<lfloor>256 - integration_time_next 19330 second_cycle_state / 2.4\<rfloor>"
  by (simp add: second_cycle_proposal)

end
